theory Spec2Isabelle
  imports Complex_Main
begin

section \<open>Core geodesics of Dehn-filled cusps (kernel\_code/core\_geodesics.c)\<close>

text \<open>
  The kernel type \<^verbatim>\<open>Real\<close>, whose declaration is in a kernel header, is rendered as the
  HOL type \<^typ>\<open>real\<close>: arithmetic is exact, and the rounding of a machine representation
  is not part of this development. A \<^verbatim>\<open>long int\<close> is rendered as a HOL integer: the
  filling coefficients are taken to lie within the range of \<^verbatim>\<open>long int\<close>, and a cast of a
  \<^verbatim>\<open>Real\<close> outside that range is not modelled. An \<^verbatim>\<open>int\<close> has 32 bits, and the conversion
  of a \<^verbatim>\<open>long int\<close> to \<^verbatim>\<open>int\<close> is written out (\<open>int_of_long\<close> below).
\<close>

subsection \<open>Data model\<close>

text \<open>A \<^verbatim>\<open>Complex\<close> is the struct with the two fields \<^verbatim>\<open>real\<close> and \<^verbatim>\<open>imag\<close>.\<close>

record Complex =
  real_part :: real
  imag_part :: real

text \<open>
  Modelled from the spec: the enumerations of the cusp topologies and of the two peripheral
  curves are declared in kernel headers; section 3 names the topologies torus and Klein
  bottle, and the meridian \<open>M\<close> and the longitude \<open>L\<close> as the two curves of a snapshot.
\<close>

datatype CuspTopology = torus_cusp | Klein_cusp

datatype PeripheralCurve = M | L

text \<open>
  The fields of \<^verbatim>\<open>Cusp\<close> that core\_geodesics.c reads, and the index by which a cusp is
  looked up. \<^verbatim>\<open>holonomy[i][c]\<close> is the logarithmic holonomy of curve \<open>c\<close> in snapshot \<open>i\<close>.
\<close>

record Cusp =
  index :: int
  is_complete :: bool
  topology :: CuspTopology
  m :: real
  l :: real
  holonomy :: "nat \<Rightarrow> PeripheralCurve \<Rightarrow> Complex"

type_synonym Triangulation = "Cusp list"

text \<open>
  A call of the kernel either returns or stops the program with a fatal error; the
  two fatal conditions that can be reached from this file are values of \<open>error\<close>.
\<close>

datatype error = domain_error | cusp_not_found

definition TORSION_EPSILON :: real where
  "TORSION_EPSILON = 1 / 100000"

text \<open>
  Modelled from the spec: the indices \<^verbatim>\<open>ultimate\<close> and \<^verbatim>\<open>penultimate\<close> are declared in
  a kernel header; section 3 fixes them as 0 and 1.
\<close>

definition ultimate :: nat where
  "ultimate = 0"

definition penultimate :: nat where
  "penultimate = 1"

subsection \<open>Collaborators defined outside core\_geodesics.c\<close>

text \<open>
  Modelled from the spec: the constant \<^verbatim>\<open>Zero\<close> and the functions \<^verbatim>\<open>complex_plus\<close>,
  \<^verbatim>\<open>complex_real_mult\<close> and \<^verbatim>\<open>complex_negate\<close> are defined in another file of the kernel;
  section 3 describes a complex value as a pair of reals with addition, negation,
  real-scalar multiplication and a distinguished zero.
\<close>

definition Zero :: Complex where
  "Zero = \<lparr>real_part = 0, imag_part = 0\<rparr>"

definition complex_plus :: "Complex \<Rightarrow> Complex \<Rightarrow> Complex" where
  "complex_plus z0 z1 =
     \<lparr>real_part = real_part z0 + real_part z1, imag_part = imag_part z0 + imag_part z1\<rparr>"

definition complex_real_mult :: "real \<Rightarrow> Complex \<Rightarrow> Complex" where
  "complex_real_mult r z = \<lparr>real_part = r * real_part z, imag_part = r * imag_part z\<rparr>"

definition complex_negate :: "Complex \<Rightarrow> Complex" where
  "complex_negate z = \<lparr>real_part = - real_part z, imag_part = - imag_part z\<rparr>"

text \<open>
  Modelled from the spec: \<^verbatim>\<open>find_cusp\<close> is defined in another file of the kernel; sections
  4.2 and 6 describe it as the lookup of a cusp by its index within the manifold, which
  fails when no cusp has that index.
\<close>

fun find_cusp :: "Triangulation \<Rightarrow> int \<Rightarrow> error + Cusp" where
  "find_cusp [] cusp_index = Inl cusp_not_found"
| "find_cusp (cusp # rest) cusp_index =
     (if index cusp = cusp_index then Inr cusp else find_cusp rest cusp_index)"

text \<open>
  Modelled from the spec: \<^verbatim>\<open>euclidean_algorithm\<close> is defined in another file of the kernel.
  Sections 4.1 (step 1) and 6 describe it: given two integers it returns their non-negative
  greatest common divisor together with two Bezout coefficients, and the pair (0, 0) is a
  domain error. The caller names the two output parameters \<^verbatim>\<open>positive_d\<close> and
  \<^verbatim>\<open>negative_c\<close>, and the spec's identity is \<open>d * m - c * l = g\<close>; so the outputs \<open>(a, b)\<close>
  satisfy \<open>a * m + b * n = g\<close>. The loop reduces the two current values in turn and keeps
  each expressed in the original arguments: \<open>mm * m0 + mn * n0\<close> is the current first value
  and \<open>nm * m0 + nn * n0\<close> the current second value.
\<close>

function euclidean_loop :: "int \<Rightarrow> int \<Rightarrow> int \<Rightarrow> int \<Rightarrow> int \<Rightarrow> int \<Rightarrow> int \<times> int \<times> int" where
  "euclidean_loop cm cn mm mn nm nn =
     (if cm = 0 then (cn, nm, nn)
      else
        let quotient = cn div cm;
            nm1 = nm - quotient * mm;
            nn1 = nn - quotient * mn;
            cn1 = cn - quotient * cm
        in if cn1 = 0 then (cm, mm, mn)
           else
             let quotient1 = cm div cn1
             in euclidean_loop (cm - quotient1 * cn1) cn1
                  (mm - quotient1 * nm1) (mn - quotient1 * nn1) nm1 nn1)"
  by pat_completeness auto
termination
proof (relation "measure (\<lambda>(cm, cn, mm, mn, nm, nn). nat \<bar>cm\<bar>)")
  show "wf (measure (\<lambda>(cm, cn, mm, mn, nm, nn). nat \<bar>cm\<bar>))"
    by simp
next
  fix cm cn mm mn nm nn :: int and q nm1 nn1 cn1 q1 :: int
  assume cm: "cm \<noteq> 0" and q: "q = cn div cm" and cn1: "cn1 = cn - q * cm"
    and nz: "cn1 \<noteq> 0" and q1: "q1 = cm div cn1"
  have a: "cn1 = cn mod cm"
    using q cn1 by (simp add: minus_div_mult_eq_mod)
  have b: "cm - q1 * cn1 = cm mod cn1"
    using q1 by (simp add: minus_div_mult_eq_mod)
  have "\<bar>cm mod cn1\<bar> < \<bar>cn1\<bar>"
    using nz by (rule abs_mod_less)
  moreover have "\<bar>cn1\<bar> < \<bar>cm\<bar>"
    unfolding a using cm by (rule abs_mod_less)
  ultimately show "((cm - q1 * cn1, cn1, mm - q1 * nm1, mn - q1 * nn1, nm1, nn1),
                    (cm, cn, mm, mn, nm, nn)) \<in> measure (\<lambda>(cm, cn, mm, mn, nm, nn). nat \<bar>cm\<bar>)"
    using b by simp
qed

declare euclidean_loop.simps [simp del]

definition euclidean_algorithm :: "int \<Rightarrow> int \<Rightarrow> error + (int \<times> int \<times> int)" where
  "euclidean_algorithm m0 n0 =
     (if m0 = 0 \<and> n0 = 0 then Inl domain_error
      else Inr (euclidean_loop \<bar>m0\<bar> \<bar>n0\<bar> (if m0 < 0 then - 1 else 1) 0 0
                  (if n0 < 0 then - 1 else 1)))"

subsection \<open>The engine: \<^verbatim>\<open>compute_core_geodesic\<close>\<close>

text \<open>
  The cast \<^verbatim>\<open>(long int) cusp->m\<close> of a \<^verbatim>\<open>Real\<close>: C discards the fractional part, that is,
  it truncates toward zero.
\<close>

definition long_of_Real :: "real \<Rightarrow> int" where
  "long_of_Real x = (if 0 \<le> x then \<lfloor>x\<rfloor> else \<lceil>x\<rceil>)"

text \<open>
  The assignment \<^verbatim>\<open>*singularity_index = euclidean_algorithm(...)\<close> stores a result that is
  computed on \<^verbatim>\<open>long int\<close> arguments in an \<^verbatim>\<open>int\<close>. A value within the range of \<^verbatim>\<open>int\<close>
  is kept; a value outside it is reduced modulo \<open>2 ^ 32\<close> into that range, which is what
  the conversion does on two's complement machines.
\<close>

definition int_of_long :: "int \<Rightarrow> int" where
  "int_of_long x = (x + 2147483648) mod 4294967296 - 2147483648"

text \<open>
  The assignment to \<^verbatim>\<open>length[i]\<close> at the head of the loop body: the two holonomies of
  snapshot \<open>i\<close>, scaled by \<^verbatim>\<open>- negative_c\<close> and \<^verbatim>\<open>positive_d\<close> and added.
\<close>

definition initial_length :: "Cusp \<Rightarrow> int \<Rightarrow> int \<Rightarrow> nat \<Rightarrow> Complex" where
  "initial_length cusp positive_d negative_c i =
     complex_plus
       (complex_real_mult (of_int (- negative_c)) (holonomy cusp i M))
       (complex_real_mult (of_int positive_d) (holonomy cusp i L))"

text \<open>The test of the real part and the negation that follows it.\<close>

definition positive_length :: "Complex \<Rightarrow> Complex" where
  "positive_length z = (if real_part z < 0 then complex_negate z else z)"

text \<open>
  The two \<^verbatim>\<open>while\<close> loops that normalize the torsion. Neither has a bound on its number of
  iterations, so each is a partial function: \<open>None\<close> stands for a loop that never exits.
\<close>

partial_function (option) raise_torsion :: "real \<Rightarrow> real \<Rightarrow> real option" where
  "raise_torsion pi_over_n im =
     (if im < - pi_over_n + TORSION_EPSILON
      then raise_torsion pi_over_n (im + 2 * pi_over_n)
      else Some im)"

partial_function (option) lower_torsion :: "real \<Rightarrow> real \<Rightarrow> real option" where
  "lower_torsion pi_over_n im =
     (if im > pi_over_n + TORSION_EPSILON
      then lower_torsion pi_over_n (im - 2 * pi_over_n)
      else Some im)"

declare raise_torsion.simps [code]
declare lower_torsion.simps [code]

text \<open>
  The normalization of the torsion: \<^verbatim>\<open>pi_over_n = PI / *singularity_index\<close> and the two
  loops in turn. The macro \<^verbatim>\<open>PI\<close> is \<^term>\<open>pi\<close>. A division by the index 0 does not stop
  the program: the quotient is the infinity of the machine arithmetic, neither loop
  condition holds against it, and the torsion is left as it is. The quotient of HOL is 0
  there, so this case is written out.
\<close>

definition normalize_torsion :: "int \<Rightarrow> real \<Rightarrow> real option" where
  "normalize_torsion singularity_index im =
     (if singularity_index = 0 then Some im
      else
        let pi_over_n = pi / of_int singularity_index
        in case raise_torsion pi_over_n im of
             None \<Rightarrow> None
           | Some imag1 \<Rightarrow> lower_torsion pi_over_n imag1)"

text \<open>One pass of the \<^verbatim>\<open>for\<close> loop: the value left in \<^verbatim>\<open>length[i]\<close>.\<close>

definition snapshot_length :: "Cusp \<Rightarrow> int \<Rightarrow> int \<Rightarrow> int \<Rightarrow> nat \<Rightarrow> Complex option" where
  "snapshot_length cusp singularity_index positive_d negative_c i =
     (let length1 = positive_length (initial_length cusp positive_d negative_c i)
      in case normalize_torsion singularity_index (imag_part length1) of
           None \<Rightarrow> None
         | Some imag2 \<Rightarrow>
             Some \<lparr>real_part = (if topology cusp = Klein_cusp
                                 then real_part length1 / 2 else real_part length1),
                   imag_part = imag2\<rparr>)"

text \<open>
  \<^verbatim>\<open>compute_core_geodesic\<close>. The predicate \<^verbatim>\<open>Dehn_coefficients_are_integers\<close> is defined
  in another file of the kernel and is a parameter here, a predicate on the two filling
  coefficients of the cusp (section 6). The value stored through \<^verbatim>\<open>singularity_index\<close> is
  the result of the Euclidean algorithm converted to \<^verbatim>\<open>int\<close>, and it is this stored value
  that the loop body reads. The result is the stored index and the array \<^verbatim>\<open>length[2]\<close>.
\<close>

definition compute_core_geodesic ::
  "(real \<Rightarrow> real \<Rightarrow> bool) \<Rightarrow> Cusp \<Rightarrow> (error + int \<times> Complex list) option" where
  "compute_core_geodesic Dehn_coefficients_are_integers cusp =
     (if is_complete cusp \<or> \<not> Dehn_coefficients_are_integers (m cusp) (l cusp)
      then Some (Inr (0, [Zero, Zero]))
      else
        case euclidean_algorithm (long_of_Real (m cusp)) (long_of_Real (l cusp)) of
          Inl e \<Rightarrow> Some (Inl e)
        | Inr (g, positive_d, negative_c) \<Rightarrow>
            (let singularity_index = int_of_long g
             in case snapshot_length cusp singularity_index positive_d negative_c 0 of
                  None \<Rightarrow> None
                | Some length_0 \<Rightarrow>
                    (case snapshot_length cusp singularity_index positive_d negative_c 1 of
                       None \<Rightarrow> None
                     | Some length_1 \<Rightarrow>
                         Some (Inr (singularity_index, [length_0, length_1])))))"

subsection \<open>The wrapper: \<^verbatim>\<open>core_geodesic\<close>\<close>

text \<open>
  \<^verbatim>\<open>complex_decimal_places_of_accuracy\<close> is defined in another file of the kernel and is
  a parameter. The flag \<open>want_precision\<close> says that the pointer \<^verbatim>\<open>precision\<close> is not
  \<^verbatim>\<open>NULL\<close>; the third component of the result is what has been stored through it.
\<close>

definition core_geodesic ::
  "(real \<Rightarrow> real \<Rightarrow> bool) \<Rightarrow> (Complex \<Rightarrow> Complex \<Rightarrow> int) \<Rightarrow> Triangulation \<Rightarrow> int \<Rightarrow> bool
     \<Rightarrow> (error + int \<times> Complex \<times> int option) option" where
  "core_geodesic Dehn_coefficients_are_integers complex_decimal_places_of_accuracy
       manifold cusp_index want_precision =
     (case find_cusp manifold cusp_index of
        Inl e \<Rightarrow> Some (Inl e)
      | Inr cusp \<Rightarrow>
          (case compute_core_geodesic Dehn_coefficients_are_integers cusp of
             None \<Rightarrow> None
           | Some (Inl e) \<Rightarrow> Some (Inl e)
           | Some (Inr (singularity_index, length2)) \<Rightarrow>
               (if singularity_index \<noteq> 0
                then Some (Inr (singularity_index, length2 ! ultimate,
                       if want_precision
                       then Some (complex_decimal_places_of_accuracy
                                    (length2 ! ultimate) (length2 ! penultimate))
                       else None))
                else Some (Inr (singularity_index, Zero,
                       if want_precision then Some 0 else None)))))"

subsection \<open>Sample inputs\<close>

text \<open>
  Two instances of the integrality predicate, an exact one and one with a tolerance, and a
  filled torus cusp with the same pair of holonomies in both snapshots. They serve as the
  concrete inputs of the worked instances below.
\<close>

definition exact_integers :: "real \<Rightarrow> real \<Rightarrow> bool" where
  "exact_integers x y \<longleftrightarrow> x = of_int \<lfloor>x\<rfloor> \<and> y = of_int \<lfloor>y\<rfloor>"

definition near_integers :: "real \<Rightarrow> real \<Rightarrow> bool" where
  "near_integers x y \<longleftrightarrow>
     \<bar>x - of_int (round x)\<bar> \<le> 1 / 100000 \<and> \<bar>y - of_int (round y)\<bar> \<le> 1 / 100000"

definition filled_cusp :: "real \<Rightarrow> real \<Rightarrow> Complex \<Rightarrow> Complex \<Rightarrow> Cusp" where
  "filled_cusp cm cl hm hl =
     \<lparr>index = 0, is_complete = False, topology = torus_cusp, m = cm, l = cl,
      holonomy = (\<lambda>i c. case c of M \<Rightarrow> hm | L \<Rightarrow> hl)\<rparr>"

section \<open>Properties\<close>

subsection \<open>The Euclidean algorithm\<close>

text \<open>
  The invariant of the loop: both current values stay non-negative and stay expressed in
  the original arguments, and their greatest common divisor does not change.
\<close>

lemma euclidean_loop_correct:
  "0 \<le> cm \<Longrightarrow> 0 \<le> cn \<Longrightarrow> mm * m0 + mn * n0 = cm \<Longrightarrow> nm * m0 + nn * n0 = cn \<Longrightarrow>
   euclidean_loop cm cn mm mn nm nn = (g, a, b) \<Longrightarrow> g = gcd cm cn \<and> a * m0 + b * n0 = g"
proof (induction cm cn mm mn nm nn rule: euclidean_loop.induct)
  case (1 cm cn mm mn nm nn)
  show ?case
  proof (cases "cm = 0")
    case True
    with "1.prems" show ?thesis
      by (simp add: euclidean_loop.simps)
  next
    case cm: False
    define q where "q = cn div cm"
    define cn1 where "cn1 = cn - q * cm"
    define q1 where "q1 = cm div cn1"
    have unfolded: "euclidean_loop cm cn mm mn nm nn =
        (if cn1 = 0 then (cm, mm, mn)
         else euclidean_loop (cm - q1 * cn1) cn1 (mm - q1 * (nm - q * mm))
                (mn - q1 * (nn - q * mn)) (nm - q * mm) (nn - q * mn))"
      by (subst euclidean_loop.simps) (simp only: Let_def cm if_False q_def cn1_def q1_def)
    have cn1_mod: "cn1 = cn mod cm"
      by (simp add: cn1_def q_def minus_div_mult_eq_mod)
    have cn1_nonneg: "0 \<le> cn1"
      using cm "1.prems"(1) by (simp add: cn1_mod)
    have g1: "gcd cm cn = gcd cm cn1"
      by (simp add: cn1_mod gcd.commute [of cm] gcd_red_int [symmetric])
    show ?thesis
    proof (cases "cn1 = 0")
      case True
      have "(g, a, b) = (cm, mm, mn)"
        using "1.prems"(5) unfolded True by simp
      with "1.prems"(1,3) g1 True show ?thesis
        by simp
    next
      case False
      have cm1_mod: "cm - q1 * cn1 = cm mod cn1"
        by (simp add: q1_def minus_div_mult_eq_mod)
      have "g = gcd (cm - q1 * cn1) cn1 \<and> a * m0 + b * n0 = g"
      proof (rule "1.IH" [OF cm q_def refl refl cn1_def False q1_def])
        show "0 \<le> cm - q1 * cn1"
          using False cn1_nonneg by (simp add: cm1_mod)
        show "0 \<le> cn1" by (rule cn1_nonneg)
        have "(nm - q * mm) * m0 + (nn - q * mn) * n0 =
              (nm * m0 + nn * n0) - q * (mm * m0 + mn * n0)"
          by (simp add: algebra_simps)
        then show second: "(nm - q * mm) * m0 + (nn - q * mn) * n0 = cn1"
          by (simp only: "1.prems"(3,4) cn1_def)
        have "(mm - q1 * (nm - q * mm)) * m0 + (mn - q1 * (nn - q * mn)) * n0 =
              (mm * m0 + mn * n0) - q1 * ((nm - q * mm) * m0 + (nn - q * mn) * n0)"
          by (simp add: algebra_simps)
        then show "(mm - q1 * (nm - q * mm)) * m0 + (mn - q1 * (nn - q * mn)) * n0 = cm - q1 * cn1"
          by (simp only: "1.prems"(3) second)
        show "euclidean_loop (cm - q1 * cn1) cn1 (mm - q1 * (nm - q * mm))
                (mn - q1 * (nn - q * mn)) (nm - q * mm) (nn - q * mn) = (g, a, b)"
          using "1.prems"(5) unfolded False by simp
      qed
      moreover have "gcd (cm - q1 * cn1) cn1 = gcd cm cn1"
        by (simp add: cm1_mod gcd.commute [of _ cn1] gcd_red_int [symmetric])
      ultimately show ?thesis
        using g1 by simp
    qed
  qed
qed

lemma euclidean_algorithm_correct:
  assumes "m0 \<noteq> 0 \<or> n0 \<noteq> 0"
  shows "\<exists>a b. euclidean_algorithm m0 n0 = Inr (gcd m0 n0, a, b) \<and> a * m0 + b * n0 = gcd m0 n0"
proof -
  obtain g a b where r: "euclidean_loop \<bar>m0\<bar> \<bar>n0\<bar> (if m0 < 0 then - 1 else 1) 0 0
      (if n0 < 0 then - 1 else 1) = (g, a, b)"
    by (metis prod_cases3)
  have "g = gcd \<bar>m0\<bar> \<bar>n0\<bar> \<and> a * m0 + b * n0 = g"
    by (rule euclidean_loop_correct [OF _ _ _ _ r]) simp_all
  then show ?thesis
    using assms r by (simp add: euclidean_algorithm_def)
qed

subsection \<open>The torsion loops\<close>

text \<open>
  For a positive step both loops exit: \<open>k\<close> iterations suffice as soon as \<open>k\<close> steps carry
  the angle past the bound, and such a \<open>k\<close> exists. The first loop leaves the angle at or
  above the lower bound; the second leaves it at or below the upper bound and does not
  take it below the lower one. Each moves the angle by a whole number of steps.
\<close>

lemma raise_torsion_steps:
  "0 < p \<Longrightarrow> - p + TORSION_EPSILON \<le> x + 2 * p * real k \<Longrightarrow>
   \<exists>y j. raise_torsion p x = Some y \<and> - p + TORSION_EPSILON \<le> y \<and> y = x + real j * (2 * p)"
proof (induction k arbitrary: x)
  case 0
  then have "raise_torsion p x = Some x"
    by (subst raise_torsion.simps) simp
  with 0 show ?case
    by (intro exI [of _ x] exI [of _ "0::nat"]) simp
next
  case (Suc k)
  show ?case
  proof (cases "x < - p + TORSION_EPSILON")
    case True
    have "- p + TORSION_EPSILON \<le> (x + 2 * p) + 2 * p * real k"
      using Suc.prems(2) by (simp add: algebra_simps)
    from Suc.IH [OF Suc.prems(1) this] obtain y j
      where y: "raise_torsion p (x + 2 * p) = Some y" and lo: "- p + TORSION_EPSILON \<le> y"
        and j: "y = (x + 2 * p) + real j * (2 * p)"
      by blast
    from True y have "raise_torsion p x = Some y"
      by (subst raise_torsion.simps) simp
    moreover from j have "y = x + real (Suc j) * (2 * p)"
      by (simp add: algebra_simps)
    ultimately show ?thesis
      using lo by blast
  next
    case False
    then have "raise_torsion p x = Some x"
      by (subst raise_torsion.simps) simp
    with False show ?thesis
      by (intro exI [of _ x] exI [of _ "0::nat"]) simp
  qed
qed

lemma raise_torsion_returns:
  assumes "0 < p"
  shows "\<exists>y j. raise_torsion p x = Some y \<and> - p + TORSION_EPSILON \<le> y \<and> y = x + real j * (2 * p)"
proof -
  have "0 < 2 * p" using assms by simp
  then obtain k :: nat where "- p + TORSION_EPSILON - x < real k * (2 * p)"
    using ex_less_of_nat_mult by blast
  then have "- p + TORSION_EPSILON \<le> x + 2 * p * real k"
    by (simp add: algebra_simps)
  with assms show ?thesis
    by (rule raise_torsion_steps)
qed

lemma lower_torsion_steps:
  "0 < p \<Longrightarrow> x - 2 * p * real k \<le> p + TORSION_EPSILON \<Longrightarrow>
   \<exists>y j. lower_torsion p x = Some y \<and> y \<le> p + TORSION_EPSILON
        \<and> (- p + TORSION_EPSILON \<le> x \<longrightarrow> - p + TORSION_EPSILON \<le> y)
        \<and> y = x - real j * (2 * p)"
proof (induction k arbitrary: x)
  case 0
  then have "lower_torsion p x = Some x"
    by (subst lower_torsion.simps) simp
  with 0 show ?case
    by (intro exI [of _ x] exI [of _ "0::nat"]) simp
next
  case (Suc k)
  show ?case
  proof (cases "x > p + TORSION_EPSILON")
    case True
    have "(x - 2 * p) - 2 * p * real k \<le> p + TORSION_EPSILON"
      using Suc.prems(2) by (simp add: algebra_simps)
    from Suc.IH [OF Suc.prems(1) this] obtain y j
      where y: "lower_torsion p (x - 2 * p) = Some y" and hi: "y \<le> p + TORSION_EPSILON"
        and lo: "- p + TORSION_EPSILON \<le> x - 2 * p \<longrightarrow> - p + TORSION_EPSILON \<le> y"
        and j: "y = (x - 2 * p) - real j * (2 * p)"
      by blast
    from True y have "lower_torsion p x = Some y"
      by (subst lower_torsion.simps) simp
    moreover from j have "y = x - real (Suc j) * (2 * p)"
      by (simp add: algebra_simps)
    moreover from True lo have "- p + TORSION_EPSILON \<le> y"
      by simp
    ultimately show ?thesis
      using hi by blast
  next
    case False
    then have "lower_torsion p x = Some x"
      by (subst lower_torsion.simps) simp
    with False show ?thesis
      by (intro exI [of _ x] exI [of _ "0::nat"]) simp
  qed
qed

lemma lower_torsion_returns:
  assumes "0 < p"
  shows "\<exists>y j. lower_torsion p x = Some y \<and> y \<le> p + TORSION_EPSILON
        \<and> (- p + TORSION_EPSILON \<le> x \<longrightarrow> - p + TORSION_EPSILON \<le> y)
        \<and> y = x - real j * (2 * p)"
proof -
  have "0 < 2 * p" using assms by simp
  then obtain k :: nat where "x - (p + TORSION_EPSILON) < real k * (2 * p)"
    using ex_less_of_nat_mult by blast
  then have "x - 2 * p * real k \<le> p + TORSION_EPSILON"
    by (simp add: algebra_simps)
  with assms show ?thesis
    by (rule lower_torsion_steps)
qed

text \<open>
  What a loop returns, if it returns: the angle is past the bound, and it was moved by a
  whole number of steps.
\<close>

lemma raise_torsion_result:
  assumes "raise_torsion p x = Some y"
  shows "- p + TORSION_EPSILON \<le> y \<and> (\<exists>j. y = x + real j * (2 * p))"
proof (rule raise_torsion.raw_induct
    [where P = "\<lambda>p x y. - p + TORSION_EPSILON \<le> y \<and> (\<exists>j. y = x + real j * (2 * p))",
      OF _ assms])
  fix f :: "real \<Rightarrow> real \<Rightarrow> real option" and p x y :: real
  assume IH: "\<And>p x y. f p x = Some y \<Longrightarrow>
      - p + TORSION_EPSILON \<le> y \<and> (\<exists>j. y = x + real j * (2 * p))"
    and body: "(if x < - p + TORSION_EPSILON then f p (x + 2 * p) else Some x) = Some y"
  show "- p + TORSION_EPSILON \<le> y \<and> (\<exists>j. y = x + real j * (2 * p))"
  proof (cases "x < - p + TORSION_EPSILON")
    case True
    with body have "f p (x + 2 * p) = Some y"
      by simp
    from IH [OF this] obtain j
      where lo: "- p + TORSION_EPSILON \<le> y" and j: "y = (x + 2 * p) + real j * (2 * p)"
      by blast
    from j have "y = x + real (Suc j) * (2 * p)"
      by (simp add: algebra_simps)
    with lo show ?thesis
      by blast
  next
    case False
    with body have "y = x"
      by simp
    with False show ?thesis
      by (intro conjI exI [of _ "0::nat"]) simp_all
  qed
qed

lemma lower_torsion_result:
  assumes "lower_torsion p x = Some y"
  shows "y \<le> p + TORSION_EPSILON \<and> (\<exists>j. y = x - real j * (2 * p))"
proof (rule lower_torsion.raw_induct
    [where P = "\<lambda>p x y. y \<le> p + TORSION_EPSILON \<and> (\<exists>j. y = x - real j * (2 * p))",
      OF _ assms])
  fix f :: "real \<Rightarrow> real \<Rightarrow> real option" and p x y :: real
  assume IH: "\<And>p x y. f p x = Some y \<Longrightarrow>
      y \<le> p + TORSION_EPSILON \<and> (\<exists>j. y = x - real j * (2 * p))"
    and body: "(if x > p + TORSION_EPSILON then f p (x - 2 * p) else Some x) = Some y"
  show "y \<le> p + TORSION_EPSILON \<and> (\<exists>j. y = x - real j * (2 * p))"
  proof (cases "x > p + TORSION_EPSILON")
    case True
    with body have "f p (x - 2 * p) = Some y"
      by simp
    from IH [OF this] obtain j
      where hi: "y \<le> p + TORSION_EPSILON" and j: "y = (x - 2 * p) - real j * (2 * p)"
      by blast
    from j have "y = x - real (Suc j) * (2 * p)"
      by (simp add: algebra_simps)
    with hi show ?thesis
      by blast
  next
    case False
    with body have "y = x"
      by simp
    with False show ?thesis
      by (intro conjI exI [of _ "0::nat"]) simp_all
  qed
qed

text \<open>
  With a negative step the two loops cannot both exit: the first leaves the angle at or
  above a bound that lies above the bound of the second, and the second moves it upwards.
\<close>

lemma loops_need_nonnegative_step:
  assumes "raise_torsion p x = Some y1" and "lower_torsion p y1 = Some y2"
  shows "0 \<le> p"
proof (rule ccontr)
  assume "\<not> 0 \<le> p"
  then have p: "p < 0"
    by simp
  from raise_torsion_result [OF assms(1)] have lo: "- p + TORSION_EPSILON \<le> y1"
    by blast
  from lower_torsion_result [OF assms(2)] obtain j
    where hi: "y2 \<le> p + TORSION_EPSILON" and j: "y2 = y1 - real j * (2 * p)"
    by blast
  have "0 \<le> real j * (2 * (- p))"
    using p by (intro mult_nonneg_nonneg) simp_all
  then have "y1 \<le> y2"
    using j by (simp add: algebra_simps)
  with lo hi p show False
    by simp
qed

subsection \<open>Normalization and one snapshot\<close>

text \<open>
  With a positive index the normalization returns an angle between the two bounds; it
  returns for no negative index; and what it returns differs from its argument by a
  whole number of steps. One pass of the loop body inherits these facts, and its real
  part is not negative.
\<close>

lemma normalize_torsion_returns:
  assumes "0 < n"
  shows "\<exists>y k. normalize_torsion n x = Some y
           \<and> - (pi / of_int n) + TORSION_EPSILON \<le> y
           \<and> y \<le> pi / of_int n + TORSION_EPSILON
           \<and> y = x + of_int k * (2 * (pi / of_int n))"
proof -
  define p where "p = pi / real_of_int n"
  have p: "0 < p"
    using assms by (simp add: p_def)
  obtain y1 j1 where y1: "raise_torsion p x = Some y1"
    and y1_lo: "- p + TORSION_EPSILON \<le> y1"
    and j1: "y1 = x + real j1 * (2 * p)"
    using raise_torsion_returns [OF p] by blast
  obtain y2 j2 where y2: "lower_torsion p y1 = Some y2" and y2_hi: "y2 \<le> p + TORSION_EPSILON"
    and y2_lo: "- p + TORSION_EPSILON \<le> y1 \<longrightarrow> - p + TORSION_EPSILON \<le> y2"
    and j2: "y2 = y1 - real j2 * (2 * p)"
    using lower_torsion_returns [OF p] by blast
  have steps: "y2 = x + of_int (int j1 - int j2) * (2 * p)"
    using j1 j2 by (simp add: algebra_simps)
  have "normalize_torsion n x = Some y2"
    using assms unfolding normalize_torsion_def Let_def p_def [symmetric]
    by (simp add: y1 y2)
  with y1_lo y2_hi y2_lo steps show ?thesis
    unfolding p_def by blast
qed

lemma normalize_torsion_index:
  assumes "normalize_torsion n x = Some y"
  shows "0 \<le> n"
proof (cases "n = 0")
  case True
  then show ?thesis by simp
next
  case False
  with assms obtain y1 where "raise_torsion (pi / of_int n) x = Some y1"
    and "lower_torsion (pi / of_int n) y1 = Some y"
    by (auto simp: normalize_torsion_def Let_def split: option.splits)
  then have step: "0 \<le> pi / real_of_int n"
    by (rule loops_need_nonnegative_step)
  show ?thesis
  proof (rule ccontr)
    assume "\<not> 0 \<le> n"
    then have "pi / real_of_int n < 0"
      by (simp add: divide_pos_neg)
    with step show False
      by simp
  qed
qed

lemma normalize_torsion_result:
  assumes "normalize_torsion n x = Some y"
  shows "\<exists>k. y = x + of_int k * (2 * (pi / of_int n))"
proof (cases "n = 0")
  case True
  with assms have "y = x"
    by (simp add: normalize_torsion_def)
  then show ?thesis
    by (intro exI [of _ "0::int"]) simp
next
  case False
  define p where "p = pi / real_of_int n"
  from False assms obtain y1 where y1: "raise_torsion p x = Some y1"
    and y: "lower_torsion p y1 = Some y"
    by (auto simp: normalize_torsion_def Let_def p_def split: option.splits)
  from raise_torsion_result [OF y1] obtain j1 where j1: "y1 = x + real j1 * (2 * p)"
    by blast
  from lower_torsion_result [OF y] obtain j2 where j2: "y = y1 - real j2 * (2 * p)"
    by blast
  have "y = x + of_int (int j1 - int j2) * (2 * p)"
    unfolding j2 j1 by (simp add: algebra_simps)
  then show ?thesis
    unfolding p_def by blast
qed

lemma positive_length_nonnegative: "0 \<le> real_part (positive_length z)"
  by (simp add: positive_length_def complex_negate_def)

lemma snapshot_length_Some:
  "snapshot_length cusp n d nc i = Some z \<longleftrightarrow>
     (\<exists>y. normalize_torsion n (imag_part (positive_length (initial_length cusp d nc i))) = Some y
        \<and> z = \<lparr>real_part = (if topology cusp = Klein_cusp
                 then real_part (positive_length (initial_length cusp d nc i)) / 2
                 else real_part (positive_length (initial_length cusp d nc i))),
               imag_part = y\<rparr>)"
  by (auto simp: snapshot_length_def Let_def split: option.splits)

lemma snapshot_length_returns:
  assumes "0 < n"
  shows "\<exists>z k. snapshot_length cusp n d nc i = Some z
           \<and> real_part z = (if topology cusp = Klein_cusp
                 then real_part (positive_length (initial_length cusp d nc i)) / 2
                 else real_part (positive_length (initial_length cusp d nc i)))
           \<and> 0 \<le> real_part z
           \<and> - (pi / of_int n) + TORSION_EPSILON \<le> imag_part z
           \<and> imag_part z \<le> pi / of_int n + TORSION_EPSILON
           \<and> imag_part z = imag_part (positive_length (initial_length cusp d nc i))
                            + of_int k * (2 * (pi / of_int n))"
proof -
  define z1 where "z1 = positive_length (initial_length cusp d nc i)"
  from normalize_torsion_returns [OF assms, of "imag_part z1"] obtain y k
    where y: "normalize_torsion n (imag_part z1) = Some y"
      and bounds: "- (pi / of_int n) + TORSION_EPSILON \<le> y" "y \<le> pi / of_int n + TORSION_EPSILON"
      and steps: "y = imag_part z1 + of_int k * (2 * (pi / of_int n))"
    by blast
  define z where "z = \<lparr>real_part = (if topology cusp = Klein_cusp
      then real_part z1 / 2 else real_part z1), imag_part = y\<rparr>"
  have "snapshot_length cusp n d nc i = Some z"
    unfolding snapshot_length_Some z1_def [symmetric] z_def using y by simp
  moreover have "0 \<le> real_part z"
    using positive_length_nonnegative [of "initial_length cusp d nc i"]
    by (simp add: z_def z1_def)
  moreover have "real_part z = (if topology cusp = Klein_cusp
      then real_part z1 / 2 else real_part z1)" "imag_part z = y"
    by (simp_all add: z_def)
  ultimately show ?thesis
    using bounds steps unfolding z1_def by blast
qed

lemma snapshot_length_index: "snapshot_length cusp n d nc i = Some z \<Longrightarrow> 0 \<le> n"
  unfolding snapshot_length_Some by (blast dest: normalize_torsion_index)

lemma snapshot_length_real_part: "snapshot_length cusp n d nc i = Some z \<Longrightarrow> 0 \<le> real_part z"
  unfolding snapshot_length_Some
  using positive_length_nonnegative [of "initial_length cusp d nc i"] by auto

lemma initial_length_topology:
  "initial_length (cusp\<lparr>topology := t\<rparr>) d nc i = initial_length cusp d nc i"
  by (simp add: initial_length_def)

lemma snapshot_length_Klein:
  assumes "snapshot_length cusp n d nc i = Some z" "topology cusp \<noteq> Klein_cusp"
  shows "snapshot_length (cusp\<lparr>topology := Klein_cusp\<rparr>) n d nc i =
           Some \<lparr>real_part = real_part z / 2, imag_part = imag_part z\<rparr>"
  using assms unfolding snapshot_length_Some initial_length_topology by auto

subsection \<open>The engine on integer coefficients\<close>

lemma long_of_Real_of_int: "long_of_Real (of_int a) = a"
  by (simp add: long_of_Real_def)


lemma euclidean_algorithm_gcd:
  assumes "euclidean_algorithm x y = Inr (g, d, nc)"
  shows "g = gcd x y \<and> d * x + nc * y = g \<and> (x \<noteq> 0 \<or> y \<noteq> 0)"
proof -
  have nz: "x \<noteq> 0 \<or> y \<noteq> 0"
    using assms by (auto simp: euclidean_algorithm_def split: if_splits)
  from euclidean_algorithm_correct [OF nz] assms show ?thesis
    using nz by auto
qed

text \<open>
  On a filled cusp with integer coefficients, not both zero, whose stored index is
  positive, the engine returns: the index is the converted greatest common divisor and the
  two lengths are those of the two passes of the loop.
\<close>

lemma compute_core_geodesic_integers:
  assumes "\<not> is_complete cusp" "dcai (m cusp) (l cusp)"
    and "m cusp = of_int a" "l cusp = of_int b" "a \<noteq> 0 \<or> b \<noteq> 0"
    and "0 < int_of_long (gcd a b)"
  shows "\<exists>d nc z0 z1. euclidean_algorithm a b = Inr (gcd a b, d, nc) \<and> d * a + nc * b = gcd a b
           \<and> snapshot_length cusp (int_of_long (gcd a b)) d nc 0 = Some z0
           \<and> snapshot_length cusp (int_of_long (gcd a b)) d nc 1 = Some z1
           \<and> compute_core_geodesic dcai cusp = Some (Inr (int_of_long (gcd a b), [z0, z1]))"
proof -
  obtain d nc where ea: "euclidean_algorithm a b = Inr (gcd a b, d, nc)"
    and bez: "d * a + nc * b = gcd a b"
    using euclidean_algorithm_correct [OF assms(5)] by blast
  obtain z0 where z0: "snapshot_length cusp (int_of_long (gcd a b)) d nc 0 = Some z0"
    using snapshot_length_returns [OF assms(6)] by blast
  obtain z1 where z1: "snapshot_length cusp (int_of_long (gcd a b)) d nc 1 = Some z1"
    using snapshot_length_returns [OF assms(6)] by blast
  have "compute_core_geodesic dcai cusp = Some (Inr (int_of_long (gcd a b), [z0, z1]))"
    using assms(1,2)
    by (simp add: compute_core_geodesic_def assms(3,4) long_of_Real_of_int ea z0 z1 Let_def
          del: One_nat_def)
  with ea bez z0 z1 show ?thesis
    by blast
qed

text \<open>Whatever the engine returns, it was assembled as the definition says.\<close>

lemma compute_core_geodesic_Inr:
  assumes "compute_core_geodesic dcai cusp = Some (Inr (n, length2))"
  shows "(is_complete cusp \<or> \<not> dcai (m cusp) (l cusp)) \<and> n = 0 \<and> length2 = [Zero, Zero]
         \<or> \<not> (is_complete cusp \<or> \<not> dcai (m cusp) (l cusp))
           \<and> (\<exists>g d nc z0 z1.
                euclidean_algorithm (long_of_Real (m cusp)) (long_of_Real (l cusp)) = Inr (g, d, nc)
                \<and> n = int_of_long g
                \<and> snapshot_length cusp n d nc 0 = Some z0
                \<and> snapshot_length cusp n d nc 1 = Some z1
                \<and> length2 = [z0, z1])"
  using assms
  by (auto simp: compute_core_geodesic_def Let_def split: if_splits sum.splits option.splits
        simp del: One_nat_def)

subsection \<open>Values at the sample inputs\<close>

lemma gcd_4_6: "gcd (4::int) 6 = 2"
  by code_simp

lemma gcd_2_3: "gcd (2::int) 3 = 1"
  by code_simp

lemma euclidean_algorithm_2_3: "euclidean_algorithm 2 3 = Inr (1, - 1, 1)"
  by code_simp

lemma euclidean_algorithm_1_0: "euclidean_algorithm 1 0 = Inr (1, 1, 0)"
  by code_simp

lemma euclidean_algorithm_1_2: "euclidean_algorithm 1 2 = Inr (1, 1, 0)"
  by code_simp


lemma int_of_long_values:
  "int_of_long 1 = 1" "int_of_long 2 = 2" "int_of_long 3 = 3" "int_of_long 4 = 4"
  "int_of_long 4294967297 = 1" "int_of_long 2147483648 = - 2147483648"
  by (simp_all add: int_of_long_def)

text \<open>A loop whose condition fails at once leaves the angle as it is.\<close>

lemma raise_torsion_stays: "\<not> im < - p + TORSION_EPSILON \<Longrightarrow> raise_torsion p im = Some im"
  by (subst raise_torsion.simps) simp

lemma lower_torsion_stays: "\<not> im > p + TORSION_EPSILON \<Longrightarrow> lower_torsion p im = Some im"
  by (subst lower_torsion.simps) simp

lemma normalize_torsion_1_stays:
  assumes "\<not> im < - pi + TORSION_EPSILON" and "\<not> im > pi + TORSION_EPSILON"
  shows "normalize_torsion 1 im = Some im"
  using raise_torsion_stays [OF assms(1)] lower_torsion_stays [OF assms(2)]
  by (simp add: normalize_torsion_def)

lemma snapshot_length_lower_bound:
  "snapshot_length (filled_cusp 1 0 Zero \<lparr>real_part = 1, imag_part = - pi + 1 / 100000\<rparr>) 1 1 0 i
     = Some \<lparr>real_part = 1, imag_part = - pi + 1 / 100000\<rparr>"
proof -
  have "normalize_torsion 1 (- pi + 1 / 100000) = Some (- pi + 1 / 100000)"
    by (rule normalize_torsion_1_stays) (simp_all add: TORSION_EPSILON_def)
  then show ?thesis
    by (simp add: snapshot_length_def initial_length_def positive_length_def filled_cusp_def
          Zero_def complex_plus_def complex_real_mult_def Let_def)
qed


text \<open>
  The filling (1, 2) with \<open>H(m) = 1/2 + 3/10 i\<close> and \<open>H(l) = 1 + 1/10 i\<close> in both snapshots:
  the index is 1 and both lengths are \<open>1 + 1/10 i\<close>.
\<close>

lemma snapshot_length_scenario:
  "snapshot_length (filled_cusp 1 2 \<lparr>real_part = 1/2, imag_part = 3/10\<rparr>
                                    \<lparr>real_part = 1, imag_part = 1/10\<rparr>) 1 1 0 i
     = Some \<lparr>real_part = 1, imag_part = 1/10\<rparr>"
proof -
  have "normalize_torsion 1 (1/10) = Some (1/10)"
    using pi_ge_two by (intro normalize_torsion_1_stays) (simp_all add: TORSION_EPSILON_def)
  then show ?thesis
    by (simp add: snapshot_length_def initial_length_def positive_length_def filled_cusp_def
          complex_plus_def complex_real_mult_def Let_def)
qed

lemma compute_core_geodesic_scenario:
  "compute_core_geodesic exact_integers
     (filled_cusp 1 2 \<lparr>real_part = 1/2, imag_part = 3/10\<rparr> \<lparr>real_part = 1, imag_part = 1/10\<rparr>)
   = Some (Inr (1, [\<lparr>real_part = 1, imag_part = 1/10\<rparr>, \<lparr>real_part = 1, imag_part = 1/10\<rparr>]))"
proof -
  define cusp where
    "cusp = filled_cusp 1 2 \<lparr>real_part = 1/2, imag_part = 3/10\<rparr> \<lparr>real_part = 1, imag_part = 1/10\<rparr>"
  have fields: "\<not> is_complete cusp" "m cusp = 1" "l cusp = 2"
    by (simp_all add: cusp_def filled_cusp_def)
  have casts: "exact_integers 1 2" "long_of_Real 1 = 1" "long_of_Real 2 = 2"
    by (simp_all add: exact_integers_def long_of_Real_def)
  have snapshot: "snapshot_length cusp 1 1 0 i = Some \<lparr>real_part = 1, imag_part = 1/10\<rparr>" for i
    unfolding cusp_def by (rule snapshot_length_scenario)
  show ?thesis
    unfolding compute_core_geodesic_def cusp_def [symmetric]
    by (simp add: fields casts euclidean_algorithm_1_2 int_of_long_values snapshot
          del: One_nat_def)
qed

lemma core_geodesic_scenario:
  "core_geodesic exact_integers cdpa
     [filled_cusp 1 2 \<lparr>real_part = 1/2, imag_part = 3/10\<rparr> \<lparr>real_part = 1, imag_part = 1/10\<rparr>]
     0 True
   = Some (Inr (1, \<lparr>real_part = 1, imag_part = 1/10\<rparr>,
        Some (cdpa \<lparr>real_part = 1, imag_part = 1/10\<rparr> \<lparr>real_part = 1, imag_part = 1/10\<rparr>)))"
proof -
  have "find_cusp [filled_cusp 1 2 \<lparr>real_part = 1/2, imag_part = 3/10\<rparr>
                                   \<lparr>real_part = 1, imag_part = 1/10\<rparr>] 0
        = Inr (filled_cusp 1 2 \<lparr>real_part = 1/2, imag_part = 3/10\<rparr>
                               \<lparr>real_part = 1, imag_part = 1/10\<rparr>)"
    by (simp add: filled_cusp_def)
  then show ?thesis
    by (simp add: core_geodesic_def compute_core_geodesic_scenario ultimate_def penultimate_def)
qed

text \<open>
  The coefficients \<open>(- 2147483648, 0)\<close>: the greatest common divisor is \<open>2147483648\<close>, the
  index stored is \<open>- 2147483648\<close>, the step of the loops is negative, and the engine does
  not return.
\<close>

lemma euclidean_algorithm_INT_MIN:
  "euclidean_algorithm (- 2147483648) 0 = Inr (2147483648, - 1, 0)"
  by code_simp

lemma compute_core_geodesic_INT_MIN:
  "compute_core_geodesic exact_integers (filled_cusp (- 2147483648) 0 hm hl) = None"
proof -
  define cusp where "cusp = filled_cusp (- 2147483648) 0 hm hl"
  have fields: "\<not> is_complete cusp" "m cusp = - 2147483648" "l cusp = 0"
    by (simp_all add: cusp_def filled_cusp_def)
  have casts: "exact_integers (- 2147483648) 0" "long_of_Real (- 2147483648) = - 2147483648"
    "long_of_Real 0 = 0"
    by (simp_all add: exact_integers_def long_of_Real_def)
  have none: "snapshot_length cusp (- 2147483648) d nc i = None" for d nc i
  proof (cases "snapshot_length cusp (- 2147483648) d nc i")
    case None
    then show ?thesis .
  next
    case (Some z)
    from snapshot_length_index [OF this] show ?thesis
      by simp
  qed
  show ?thesis
    unfolding cusp_def [symmetric] compute_core_geodesic_def
    by (simp add: fields casts euclidean_algorithm_INT_MIN int_of_long_values none)
qed

subsection \<open>Truncation of the coefficients\<close>

lemma long_of_Real_truncates:
  "\<bar>real_of_int (long_of_Real x)\<bar> \<le> \<bar>x\<bar> \<and> \<bar>x\<bar> < \<bar>real_of_int (long_of_Real x)\<bar> + 1
   \<and> 0 \<le> real_of_int (long_of_Real x) * x"
proof (cases "0 \<le> x")
  case True
  then have "0 \<le> real_of_int \<lfloor>x\<rfloor>"
    by simp
  with True show ?thesis
    unfolding long_of_Real_def by (simp add: mult_nonneg_nonneg)
next
  case False
  then have "real_of_int \<lceil>x\<rceil> \<le> 0"
    by (simp add: ceiling_le_zero)
  with False show ?thesis
    unfolding long_of_Real_def by (simp add: mult_nonpos_nonpos) linarith
qed

section \<open>The claims\<close>

text \<open>
  In the statements below \<open>dcai\<close> is the integrality predicate handed to the engine, and
  \<open>a\<close> and \<open>b\<close> are the integers that the filling coefficients \<open>m\<close> and \<open>l\<close> of the
  cusp denote. The index that the engine stores is \<open>int_of_long (gcd \<bar>a\<bar> \<bar>b\<bar>)\<close>.
\<close>




text \<open>
  Claim C2, as stated: the length before sign fixing and normalization is
  \<open>(- c) * H(m) + d * H(l)\<close> with \<open>d * m - c * l = gcd\<close>. This fails at the coefficients
  (2, 3) with \<open>H(m) = 1/2 + 3/10 i\<close> and \<open>H(l) = 1 + 1/10 i\<close>: the algorithm returns
  \<open>positive_d = - 1\<close> and \<open>negative_c = 1\<close>, so that \<open>d = - 1\<close> and \<open>c = - 1\<close> satisfy
  \<open>d * 2 - c * 3 = 1\<close>; the engine computes \<open>- 3/2 - 2/5 i\<close>, whereas
  \<open>(- c) * H(m) + d * H(l)\<close> is \<open>- 1/2 + 1/5 i\<close>. Reading \<open>c\<close> as the second output itself,
  \<open>c = 1\<close>, does not help: then \<open>d * 2 - c * 3\<close> is \<open>- 5\<close>, not the greatest common divisor.
\<close>

theorem initial_length_sign_counterexample:
  "euclidean_algorithm (long_of_Real (m (filled_cusp 2 3 \<lparr>real_part = 1/2, imag_part = 3/10\<rparr>
                                                   \<lparr>real_part = 1, imag_part = 1/10\<rparr>)))
                       (long_of_Real (l (filled_cusp 2 3 \<lparr>real_part = 1/2, imag_part = 3/10\<rparr>
                                                   \<lparr>real_part = 1, imag_part = 1/10\<rparr>)))
     = Inr (gcd \<bar>2\<bar> \<bar>3\<bar>, - 1, 1)
   \<and> (- 1) * 2 - (- 1) * 3 = gcd \<bar>2\<bar> \<bar>3 :: int\<bar>
   \<and> initial_length (filled_cusp 2 3 \<lparr>real_part = 1/2, imag_part = 3/10\<rparr>
                                      \<lparr>real_part = 1, imag_part = 1/10\<rparr>) (- 1) 1 ultimate
       = \<lparr>real_part = - 3/2, imag_part = - 2/5\<rparr>
   \<and> complex_plus
         (complex_real_mult (of_int (- (- 1)))
            (holonomy (filled_cusp 2 3 \<lparr>real_part = 1/2, imag_part = 3/10\<rparr>
                                      \<lparr>real_part = 1, imag_part = 1/10\<rparr>) ultimate M))
         (complex_real_mult (of_int (- 1))
            (holonomy (filled_cusp 2 3 \<lparr>real_part = 1/2, imag_part = 3/10\<rparr>
                                      \<lparr>real_part = 1, imag_part = 1/10\<rparr>) ultimate L))
       = \<lparr>real_part = - 1/2, imag_part = 1/5\<rparr>
   \<and> (- 1) * 2 - 1 * 3 \<noteq> gcd \<bar>2\<bar> \<bar>3 :: int\<bar>
   \<and> initial_length (filled_cusp 2 3 \<lparr>real_part = 1/2, imag_part = 3/10\<rparr>
                                      \<lparr>real_part = 1, imag_part = 1/10\<rparr>) (- 1) 1 ultimate
       \<noteq> complex_plus
         (complex_real_mult (of_int (- (- 1)))
            (holonomy (filled_cusp 2 3 \<lparr>real_part = 1/2, imag_part = 3/10\<rparr>
                                      \<lparr>real_part = 1, imag_part = 1/10\<rparr>) ultimate M))
         (complex_real_mult (of_int (- 1))
            (holonomy (filled_cusp 2 3 \<lparr>real_part = 1/2, imag_part = 3/10\<rparr>
                                      \<lparr>real_part = 1, imag_part = 1/10\<rparr>) ultimate L))"
  by (simp add: filled_cusp_def long_of_Real_def euclidean_algorithm_2_3 initial_length_def
        complex_plus_def complex_real_mult_def)

text \<open>
  Claim C2, amended. For a filled cusp with integer coefficients \<open>(m, l)\<close>, not both zero,
  and for each snapshot, the length before sign fixing and normalization is
  \<open>c * H(m) + d * H(l)\<close>, where \<open>d\<close> is the first coefficient returned by the Euclidean
  algorithm, \<open>- c\<close> is the second one, and \<open>d * m - c * l = gcd \<bar>m\<bar> \<bar>l\<bar>\<close>. Every pair of
  lengths that the engine returns is obtained from these two values: the real part is
  that of the sign-fixed value, halved for a Klein bottle cusp, and the imaginary part is
  that of the sign-fixed value moved by a whole number of steps \<open>2 * pi / n\<close>. The engine
  does return when the stored index is positive. In the instance the coefficients are
  (2, 3), \<open>c * H(m) + d * H(l)\<close> is \<open>- 3/2 - 2/5 i\<close>, and the engine returns lengths with
  real part \<open>3/2\<close> and imaginary part \<open>2/5\<close> up to whole turns.
\<close>

theorem initial_length_formula:
  assumes "\<not> is_complete cusp" and "dcai (m cusp) (l cusp)"
    and "m cusp = of_int a" and "l cusp = of_int b" and "a \<noteq> 0 \<or> b \<noteq> 0"
  shows "\<exists>d c.
           euclidean_algorithm (long_of_Real (m cusp)) (long_of_Real (l cusp))
             = Inr (gcd \<bar>a\<bar> \<bar>b\<bar>, d, - c)
           \<and> d * a - c * b = gcd \<bar>a\<bar> \<bar>b\<bar>
           \<and> (\<forall>i. initial_length cusp d (- c) i =
                  complex_plus (complex_real_mult (of_int c) (holonomy cusp i M))
                               (complex_real_mult (of_int d) (holonomy cusp i L)))
           \<and> (\<forall>n length2. compute_core_geodesic dcai cusp = Some (Inr (n, length2)) \<longrightarrow>
                (\<exists>length_0 length_1 k0 k1.
                   n = int_of_long (gcd \<bar>a\<bar> \<bar>b\<bar>) \<and> length2 = [length_0, length_1]
                   \<and> real_part length_0 =
                       (if topology cusp = Klein_cusp
                        then real_part (positive_length
                               (complex_plus (complex_real_mult (of_int c) (holonomy cusp 0 M))
                                             (complex_real_mult (of_int d) (holonomy cusp 0 L)))) / 2
                        else real_part (positive_length
                               (complex_plus (complex_real_mult (of_int c) (holonomy cusp 0 M))
                                             (complex_real_mult (of_int d) (holonomy cusp 0 L)))))
                   \<and> imag_part length_0 =
                       imag_part (positive_length
                               (complex_plus (complex_real_mult (of_int c) (holonomy cusp 0 M))
                                             (complex_real_mult (of_int d) (holonomy cusp 0 L))))
                       + of_int k0 * (2 * (pi / of_int n))
                   \<and> real_part length_1 =
                       (if topology cusp = Klein_cusp
                        then real_part (positive_length
                               (complex_plus (complex_real_mult (of_int c) (holonomy cusp 1 M))
                                             (complex_real_mult (of_int d) (holonomy cusp 1 L)))) / 2
                        else real_part (positive_length
                               (complex_plus (complex_real_mult (of_int c) (holonomy cusp 1 M))
                                             (complex_real_mult (of_int d) (holonomy cusp 1 L)))))
                   \<and> imag_part length_1 =
                       imag_part (positive_length
                               (complex_plus (complex_real_mult (of_int c) (holonomy cusp 1 M))
                                             (complex_real_mult (of_int d) (holonomy cusp 1 L))))
                       + of_int k1 * (2 * (pi / of_int n))))
           \<and> (0 < int_of_long (gcd \<bar>a\<bar> \<bar>b\<bar>) \<longrightarrow>
                (\<exists>length2. compute_core_geodesic dcai cusp
                   = Some (Inr (int_of_long (gcd \<bar>a\<bar> \<bar>b\<bar>), length2))))"
proof -
  obtain d nc where ea: "euclidean_algorithm a b = Inr (gcd a b, d, nc)"
    and bez: "d * a + nc * b = gcd a b"
    using euclidean_algorithm_correct [OF assms(5)] by blast
  define c where "c = - nc"
  define start where "start i =
      complex_plus (complex_real_mult (of_int c) (holonomy cusp i M))
                   (complex_real_mult (of_int d) (holonomy cusp i L))" for i
  have nc: "nc = - c"
    by (simp add: c_def)
  have ea': "euclidean_algorithm (long_of_Real (m cusp)) (long_of_Real (l cusp))
      = Inr (gcd a b, d, - c)"
    using ea by (simp add: assms(3,4) long_of_Real_of_int nc)
  have bez': "d * a - c * b = gcd a b"
    using bez by (simp add: c_def)
  have formula: "initial_length cusp d (- c) i = start i" for i
    by (simp add: initial_length_def start_def)
  have one: "real_part z = (if topology cusp = Klein_cusp
              then real_part (positive_length (start i)) / 2
              else real_part (positive_length (start i)))
           \<and> (\<exists>k. imag_part z = imag_part (positive_length (start i))
                 + of_int k * (2 * (pi / of_int n)))"
    if "snapshot_length cusp n d (- c) i = Some z" for i z n
  proof -
    from that obtain y
      where y: "normalize_torsion n (imag_part (positive_length (start i))) = Some y"
        and z: "z = \<lparr>real_part = (if topology cusp = Klein_cusp
               then real_part (positive_length (start i)) / 2
               else real_part (positive_length (start i))),
             imag_part = y\<rparr>"
      unfolding snapshot_length_Some formula by blast
    from normalize_torsion_result [OF y] z show ?thesis
      by simp
  qed
  have tie: "\<exists>length_0 length_1 k0 k1.
        n = int_of_long (gcd a b) \<and> length2 = [length_0, length_1]
        \<and> real_part length_0 = (if topology cusp = Klein_cusp
              then real_part (positive_length (start 0)) / 2
              else real_part (positive_length (start 0)))
        \<and> imag_part length_0 = imag_part (positive_length (start 0))
              + of_int k0 * (2 * (pi / of_int n))
        \<and> real_part length_1 = (if topology cusp = Klein_cusp
              then real_part (positive_length (start 1)) / 2
              else real_part (positive_length (start 1)))
        \<and> imag_part length_1 = imag_part (positive_length (start 1))
              + of_int k1 * (2 * (pi / of_int n))"
    if r: "compute_core_geodesic dcai cusp = Some (Inr (n, length2))" for n length2
  proof -
    from compute_core_geodesic_Inr [OF r] assms(1,2) ea' obtain z0 z1
      where n: "n = int_of_long (gcd a b)"
        and z0: "snapshot_length cusp n d (- c) 0 = Some z0"
        and z1: "snapshot_length cusp n d (- c) 1 = Some z1"
        and len: "length2 = [z0, z1]"
      by auto
    from one [OF z0] one [OF z1] n len show ?thesis
      by blast
  qed
  have returns: "\<exists>length2. compute_core_geodesic dcai cusp
      = Some (Inr (int_of_long (gcd a b), length2))" if "0 < int_of_long (gcd a b)"
    using compute_core_geodesic_integers [where dcai = dcai, OF assms that] by blast
  have "euclidean_algorithm (long_of_Real (m cusp)) (long_of_Real (l cusp))
             = Inr (gcd a b, d, - c)
        \<and> d * a - c * b = gcd a b
        \<and> (\<forall>i. initial_length cusp d (- c) i = start i)
        \<and> (\<forall>n length2. compute_core_geodesic dcai cusp = Some (Inr (n, length2)) \<longrightarrow>
             (\<exists>length_0 length_1 k0 k1.
                n = int_of_long (gcd a b) \<and> length2 = [length_0, length_1]
                \<and> real_part length_0 = (if topology cusp = Klein_cusp
                      then real_part (positive_length (start 0)) / 2
                      else real_part (positive_length (start 0)))
                \<and> imag_part length_0 = imag_part (positive_length (start 0))
                      + of_int k0 * (2 * (pi / of_int n))
                \<and> real_part length_1 = (if topology cusp = Klein_cusp
                      then real_part (positive_length (start 1)) / 2
                      else real_part (positive_length (start 1)))
                \<and> imag_part length_1 = imag_part (positive_length (start 1))
                      + of_int k1 * (2 * (pi / of_int n))))
        \<and> (0 < int_of_long (gcd a b) \<longrightarrow>
             (\<exists>length2. compute_core_geodesic dcai cusp
                = Some (Inr (int_of_long (gcd a b), length2))))"
    using ea' bez' formula tie returns by blast
  then show ?thesis
    unfolding gcd_abs1_int gcd_abs2_int start_def
    by (intro exI [of _ d] exI [of _ c])
qed

theorem initial_length_formula_witness:
  "\<exists>length_0 length_1 k0 k1.
     compute_core_geodesic exact_integers
       (filled_cusp 2 3 \<lparr>real_part = 1/2, imag_part = 3/10\<rparr> \<lparr>real_part = 1, imag_part = 1/10\<rparr>)
       = Some (Inr (1, [length_0, length_1]))
     \<and> real_part length_0 = 3/2 \<and> imag_part length_0 = 2/5 + of_int k0 * (2 * pi)
     \<and> real_part length_1 = 3/2 \<and> imag_part length_1 = 2/5 + of_int k1 * (2 * pi)"
proof -
  define cusp where
    "cusp = filled_cusp 2 3 \<lparr>real_part = 1/2, imag_part = 3/10\<rparr> \<lparr>real_part = 1, imag_part = 1/10\<rparr>"
  have fields: "\<not> is_complete cusp" "exact_integers (m cusp) (l cusp)"
    "m cusp = of_int 2" "l cusp = of_int 3" "(2::int) \<noteq> 0 \<or> (3::int) \<noteq> 0"
    by (simp_all add: cusp_def filled_cusp_def exact_integers_def)
  have casts: "long_of_Real (m cusp) = 2" "long_of_Real (l cusp) = 3"
    by (simp_all add: cusp_def filled_cusp_def long_of_Real_def)
  from initial_length_formula [where dcai = exact_integers, OF fields] obtain d c
    where ea: "euclidean_algorithm (long_of_Real (m cusp)) (long_of_Real (l cusp))
                 = Inr (gcd \<bar>2\<bar> \<bar>3\<bar>, d, - c)"
      and tie: "\<And>n length2. compute_core_geodesic exact_integers cusp = Some (Inr (n, length2)) \<Longrightarrow>
          \<exists>length_0 length_1 k0 k1.
             n = int_of_long (gcd \<bar>2\<bar> \<bar>3\<bar>) \<and> length2 = [length_0, length_1]
             \<and> real_part length_0 =
                 (if topology cusp = Klein_cusp
                  then real_part (positive_length
                         (complex_plus (complex_real_mult (of_int c) (holonomy cusp 0 M))
                                       (complex_real_mult (of_int d) (holonomy cusp 0 L)))) / 2
                  else real_part (positive_length
                         (complex_plus (complex_real_mult (of_int c) (holonomy cusp 0 M))
                                       (complex_real_mult (of_int d) (holonomy cusp 0 L)))))
             \<and> imag_part length_0 =
                 imag_part (positive_length
                         (complex_plus (complex_real_mult (of_int c) (holonomy cusp 0 M))
                                       (complex_real_mult (of_int d) (holonomy cusp 0 L))))
                 + of_int k0 * (2 * (pi / of_int n))
             \<and> real_part length_1 =
                 (if topology cusp = Klein_cusp
                  then real_part (positive_length
                         (complex_plus (complex_real_mult (of_int c) (holonomy cusp 1 M))
                                       (complex_real_mult (of_int d) (holonomy cusp 1 L)))) / 2
                  else real_part (positive_length
                         (complex_plus (complex_real_mult (of_int c) (holonomy cusp 1 M))
                                       (complex_real_mult (of_int d) (holonomy cusp 1 L)))))
             \<and> imag_part length_1 =
                 imag_part (positive_length
                         (complex_plus (complex_real_mult (of_int c) (holonomy cusp 1 M))
                                       (complex_real_mult (of_int d) (holonomy cusp 1 L))))
                 + of_int k1 * (2 * (pi / of_int n))"
      and returns: "0 < int_of_long (gcd \<bar>2\<bar> \<bar>3\<bar>) \<longrightarrow>
          (\<exists>length2. compute_core_geodesic exact_integers cusp
             = Some (Inr (int_of_long (gcd \<bar>2\<bar> \<bar>3\<bar>), length2)))"
    by blast
  from ea have dc: "d = - 1" "c = - 1"
    by (simp_all add: casts euclidean_algorithm_2_3)
  from returns obtain length2
    where r: "compute_core_geodesic exact_integers cusp = Some (Inr (1, length2))"
    by (auto simp: gcd_2_3 int_of_long_values)
  have start: "positive_length
        (complex_plus (complex_real_mult (of_int c) (holonomy cusp i M))
                      (complex_real_mult (of_int d) (holonomy cusp i L)))
      = \<lparr>real_part = 3/2, imag_part = 2/5\<rparr>" for i
    by (simp add: dc cusp_def filled_cusp_def positive_length_def complex_plus_def
          complex_real_mult_def complex_negate_def)
  have torus: "topology cusp \<noteq> Klein_cusp"
    by (simp add: cusp_def filled_cusp_def)
  from tie [OF r] obtain length_0 length_1 k0 k1
    where "length2 = [length_0, length_1]"
      and "real_part length_0 = 3/2" "imag_part length_0 = 2/5 + of_int k0 * (2 * pi)"
      and "real_part length_1 = 3/2" "imag_part length_1 = 2/5 + of_int k1 * (2 * pi)"
    unfolding start using torus by auto
  with r show ?thesis
    unfolding cusp_def by blast
qed

text \<open>
  Claim C3. For a cusp that is complete, and for a cusp whose filling coefficients fail the
  integrality predicate, \<^const>\<open>compute_core_geodesic\<close> returns normally with singularity
  index 0 and with the zero complex value in both the ultimate and the penultimate slot,
  whatever the holonomies are.
\<close>

theorem unfilled_or_non_integer_is_zero:
  assumes "is_complete cusp \<or> \<not> dcai (m cusp) (l cusp)"
  shows "compute_core_geodesic dcai cusp = Some (Inr (0, [Zero, Zero]))
         \<and> [Zero, Zero] ! ultimate = \<lparr>real_part = 0, imag_part = 0\<rparr>
         \<and> [Zero, Zero] ! penultimate = \<lparr>real_part = 0, imag_part = 0\<rparr>"
  using assms by (simp add: compute_core_geodesic_def ultimate_def penultimate_def Zero_def)

theorem unfilled_or_non_integer_is_zero_witness:
  "compute_core_geodesic exact_integers
      ((filled_cusp 1 2 \<lparr>real_part = 1/2, imag_part = 3/10\<rparr> \<lparr>real_part = 1, imag_part = 1/10\<rparr>)
         \<lparr>is_complete := True\<rparr>)
     = Some (Inr (0, [Zero, Zero]))
   \<and> compute_core_geodesic exact_integers (filled_cusp (5/2) 1 Zero Zero)
     = Some (Inr (0, [Zero, Zero]))"
  using unfilled_or_non_integer_is_zero [of
      "(filled_cusp 1 2 \<lparr>real_part = 1/2, imag_part = 3/10\<rparr> \<lparr>real_part = 1, imag_part = 1/10\<rparr>)
         \<lparr>is_complete := True\<rparr>" exact_integers]
    unfilled_or_non_integer_is_zero [of "filled_cusp (5/2) 1 Zero Zero" exact_integers]
  by (simp add: filled_cusp_def exact_integers_def)

text \<open>
  Claim C4, as stated: the imaginary part of each returned length lies in the half-open
  interval from \<open>- pi / n + TORSION_EPSILON\<close> (excluded) to \<open>pi / n + TORSION_EPSILON\<close>
  (included). The lower end is not excluded: with coefficients (1, 0) and the longitude
  holonomy \<open>1 + (- pi + 1/100000) i\<close> the first loop does not run, since its condition is
  a strict comparison, and the engine returns the torsion \<open>- pi + 1/100000\<close>.
\<close>

theorem torsion_lower_bound_counterexample:
  "compute_core_geodesic exact_integers
      (filled_cusp 1 0 Zero \<lparr>real_part = 1, imag_part = - pi + 1 / 100000\<rparr>)
     = Some (Inr (1, [\<lparr>real_part = 1, imag_part = - pi + 1 / 100000\<rparr>,
                      \<lparr>real_part = 1, imag_part = - pi + 1 / 100000\<rparr>]))
   \<and> \<not> (- (pi / of_int 1) + TORSION_EPSILON
          < imag_part ([\<lparr>real_part = 1, imag_part = - pi + 1 / 100000\<rparr>,
                        \<lparr>real_part = 1, imag_part = - pi + 1 / 100000\<rparr>] ! ultimate))"
proof -
  define cusp where "cusp = filled_cusp 1 0 Zero \<lparr>real_part = 1, imag_part = - pi + 1 / 100000\<rparr>"
  define z where "z = \<lparr>real_part = 1, imag_part = - pi + 1 / 100000\<rparr>"
  have fields: "\<not> is_complete cusp" "m cusp = 1" "l cusp = 0"
    by (simp_all add: cusp_def filled_cusp_def)
  have casts: "exact_integers 1 0" "long_of_Real 1 = 1" "long_of_Real 0 = 0"
    by (simp_all add: exact_integers_def long_of_Real_def)
  have snapshot: "snapshot_length cusp 1 1 0 i = Some z" for i
    unfolding cusp_def z_def by (rule snapshot_length_lower_bound)
  have "compute_core_geodesic exact_integers cusp = Some (Inr (1, [z, z]))"
    unfolding compute_core_geodesic_def
    by (simp add: fields casts euclidean_algorithm_1_0 int_of_long_values snapshot
          del: One_nat_def)
  moreover have "\<not> (- (pi / of_int 1) + TORSION_EPSILON < imag_part ([z, z] ! ultimate))"
    by (simp add: z_def TORSION_EPSILON_def ultimate_def)
  ultimately show ?thesis
    unfolding cusp_def z_def by blast
qed

text \<open>
  Claim C4, amended. For a filled cusp with integer coefficients, not both zero, and
  stored singularity index \<open>n \<ge> 1\<close>, the engine returns with that index, and the imaginary
  part of each of the two returned lengths lies in the closed interval from
  \<open>- pi / n + TORSION_EPSILON\<close> to \<open>pi / n + TORSION_EPSILON\<close>, both ends included; it
  differs from the imaginary part of the sign-fixed length by a whole number of steps
  \<open>2 * pi / n\<close>.
\<close>

theorem torsion_in_closed_interval:
  assumes "\<not> is_complete cusp" and "dcai (m cusp) (l cusp)"
    and "m cusp = of_int a" and "l cusp = of_int b" and "a \<noteq> 0 \<or> b \<noteq> 0"
    and "1 \<le> int_of_long (gcd \<bar>a\<bar> \<bar>b\<bar>)"
  shows "\<exists>d nc length_0 length_1 k0 k1.
           euclidean_algorithm (long_of_Real (m cusp)) (long_of_Real (l cusp))
             = Inr (gcd \<bar>a\<bar> \<bar>b\<bar>, d, nc)
           \<and> compute_core_geodesic dcai cusp
               = Some (Inr (int_of_long (gcd \<bar>a\<bar> \<bar>b\<bar>), [length_0, length_1]))
           \<and> - (pi / of_int (int_of_long (gcd \<bar>a\<bar> \<bar>b\<bar>))) + TORSION_EPSILON \<le> imag_part length_0
           \<and> imag_part length_0 \<le> pi / of_int (int_of_long (gcd \<bar>a\<bar> \<bar>b\<bar>)) + TORSION_EPSILON
           \<and> imag_part length_0 = imag_part (positive_length (initial_length cusp d nc 0))
                + of_int k0 * (2 * (pi / of_int (int_of_long (gcd \<bar>a\<bar> \<bar>b\<bar>))))
           \<and> - (pi / of_int (int_of_long (gcd \<bar>a\<bar> \<bar>b\<bar>))) + TORSION_EPSILON \<le> imag_part length_1
           \<and> imag_part length_1 \<le> pi / of_int (int_of_long (gcd \<bar>a\<bar> \<bar>b\<bar>)) + TORSION_EPSILON
           \<and> imag_part length_1 = imag_part (positive_length (initial_length cusp d nc 1))
                + of_int k1 * (2 * (pi / of_int (int_of_long (gcd \<bar>a\<bar> \<bar>b\<bar>))))"
proof -
  define n where "n = int_of_long (gcd a b)"
  have pos: "0 < n"
    using assms(6) by (simp add: n_def)
  from compute_core_geodesic_integers [where dcai = dcai, OF assms(1-5)] pos obtain d nc z0 z1
    where ea: "euclidean_algorithm a b = Inr (gcd a b, d, nc)"
      and z0: "snapshot_length cusp n d nc 0 = Some z0"
      and z1: "snapshot_length cusp n d nc 1 = Some z1"
      and r: "compute_core_geodesic dcai cusp = Some (Inr (n, [z0, z1]))"
    unfolding n_def by blast
  from snapshot_length_returns [OF pos, of cusp d nc 0] z0 obtain k0 :: int
    where b0: "- (pi / of_int n) + TORSION_EPSILON \<le> imag_part z0"
      "imag_part z0 \<le> pi / of_int n + TORSION_EPSILON"
      "imag_part z0 = imag_part (positive_length (initial_length cusp d nc 0))
         + of_int k0 * (2 * (pi / of_int n))"
    by auto
  from snapshot_length_returns [OF pos, of cusp d nc 1] z1 obtain k1 :: int
    where b1: "- (pi / of_int n) + TORSION_EPSILON \<le> imag_part z1"
      "imag_part z1 \<le> pi / of_int n + TORSION_EPSILON"
      "imag_part z1 = imag_part (positive_length (initial_length cusp d nc 1))
         + of_int k1 * (2 * (pi / of_int n))"
    by auto
  have ea': "euclidean_algorithm (long_of_Real (m cusp)) (long_of_Real (l cusp))
      = Inr (gcd a b, d, nc)"
    using ea by (simp add: assms(3,4) long_of_Real_of_int)
  show ?thesis
    unfolding gcd_abs1_int gcd_abs2_int n_def [symmetric]
    using ea' r b0 b1 by blast
qed

theorem torsion_in_closed_interval_witness:
  "\<exists>d nc length_0 length_1 k0 k1.
     euclidean_algorithm (long_of_Real 1) (long_of_Real 0) = Inr (1, d, nc)
     \<and> compute_core_geodesic exact_integers
       (filled_cusp 1 0 Zero \<lparr>real_part = 1, imag_part = - pi + 1 / 100000\<rparr>)
       = Some (Inr (1, [length_0, length_1]))
     \<and> - pi + TORSION_EPSILON \<le> imag_part length_0
     \<and> imag_part length_0 \<le> pi + TORSION_EPSILON
     \<and> imag_part length_0 = imag_part (positive_length (initial_length
           (filled_cusp 1 0 Zero \<lparr>real_part = 1, imag_part = - pi + 1 / 100000\<rparr>) d nc 0))
         + of_int k0 * (2 * pi)
     \<and> - pi + TORSION_EPSILON \<le> imag_part length_1
     \<and> imag_part length_1 \<le> pi + TORSION_EPSILON
     \<and> imag_part length_1 = imag_part (positive_length (initial_length
           (filled_cusp 1 0 Zero \<lparr>real_part = 1, imag_part = - pi + 1 / 100000\<rparr>) d nc 1))
         + of_int k1 * (2 * pi)"
proof -
  define cusp where "cusp = filled_cusp 1 0 Zero \<lparr>real_part = 1, imag_part = - pi + 1 / 100000\<rparr>"
  have "\<not> is_complete cusp" and "exact_integers (m cusp) (l cusp)"
    and "m cusp = of_int 1" and "l cusp = of_int 0" and "(1::int) \<noteq> 0 \<or> (0::int) \<noteq> 0"
    and "1 \<le> int_of_long (gcd \<bar>1\<bar> \<bar>0\<bar>)"
    by (simp_all add: cusp_def filled_cusp_def exact_integers_def int_of_long_values)
  from torsion_in_closed_interval [where dcai = exact_integers, OF this]
  show ?thesis
    unfolding cusp_def [symmetric]
    by (simp add: \<open>m cusp = of_int 1\<close> \<open>l cusp = of_int 0\<close> int_of_long_values del: One_nat_def)
qed

text \<open>
  Claim C5. For a filled cusp with integer coefficients, not both zero: when the stored
  singularity index is at least 1 the engine returns, with an index different from zero,
  and the real part of each of the two returned lengths is not negative; and whatever
  the stored index is, the real part of every length that the engine returns is not
  negative. The halving for a Klein bottle cusp is part of the returned value.
\<close>

theorem real_part_nonnegative:
  assumes "\<not> is_complete cusp" and "dcai (m cusp) (l cusp)"
    and "m cusp = of_int a" and "l cusp = of_int b" and "a \<noteq> 0 \<or> b \<noteq> 0"
  shows "(1 \<le> int_of_long (gcd \<bar>a\<bar> \<bar>b\<bar>) \<longrightarrow>
            (\<exists>length_0 length_1.
               compute_core_geodesic dcai cusp
                 = Some (Inr (int_of_long (gcd \<bar>a\<bar> \<bar>b\<bar>), [length_0, length_1]))
               \<and> int_of_long (gcd \<bar>a\<bar> \<bar>b\<bar>) \<noteq> 0
               \<and> 0 \<le> real_part length_0 \<and> 0 \<le> real_part length_1))
         \<and> (\<forall>n length2. compute_core_geodesic dcai cusp = Some (Inr (n, length2)) \<longrightarrow>
               (\<exists>length_0 length_1. length2 = [length_0, length_1]
                  \<and> 0 \<le> real_part length_0 \<and> 0 \<le> real_part length_1))"
proof -
  have always: "\<exists>length_0 length_1. length2 = [length_0, length_1]
      \<and> 0 \<le> real_part length_0 \<and> 0 \<le> real_part length_1"
    if r: "compute_core_geodesic dcai cusp = Some (Inr (n, length2))" for n length2
  proof -
    from compute_core_geodesic_Inr [OF r] assms(1,2) obtain d nc z0 z1
      where z0: "snapshot_length cusp n d nc 0 = Some z0"
        and z1: "snapshot_length cusp n d nc 1 = Some z1"
        and len: "length2 = [z0, z1]"
      by auto
    from snapshot_length_real_part [OF z0] snapshot_length_real_part [OF z1] len
    show ?thesis
      by blast
  qed
  have returns: "\<exists>length_0 length_1.
      compute_core_geodesic dcai cusp = Some (Inr (int_of_long (gcd a b), [length_0, length_1]))
      \<and> int_of_long (gcd a b) \<noteq> 0
      \<and> 0 \<le> real_part length_0 \<and> 0 \<le> real_part length_1"
    if n: "1 \<le> int_of_long (gcd a b)"
  proof -
    have pos: "0 < int_of_long (gcd a b)"
      using n by simp
    from compute_core_geodesic_integers [where dcai = dcai, OF assms pos] obtain z0 z1
      where r: "compute_core_geodesic dcai cusp = Some (Inr (int_of_long (gcd a b), [z0, z1]))"
      by blast
    from always [OF r] pos r show ?thesis
      by auto
  qed
  show ?thesis
    unfolding gcd_abs1_int gcd_abs2_int using always returns by blast
qed

theorem real_part_nonnegative_witness:
  "\<exists>length_0 length_1.
     compute_core_geodesic exact_integers
       ((filled_cusp (- 4) 6 \<lparr>real_part = 1/2, imag_part = 3/10\<rparr> \<lparr>real_part = 1, imag_part = 1/10\<rparr>)
          \<lparr>topology := Klein_cusp\<rparr>)
       = Some (Inr (2, [length_0, length_1]))
     \<and> 0 \<le> real_part length_0 \<and> 0 \<le> real_part length_1"
  using real_part_nonnegative [of
      "(filled_cusp (- 4) 6 \<lparr>real_part = 1/2, imag_part = 3/10\<rparr> \<lparr>real_part = 1, imag_part = 1/10\<rparr>)
          \<lparr>topology := Klein_cusp\<rparr>" exact_integers "- 4" 6]
  by (simp add: filled_cusp_def exact_integers_def gcd_4_6 int_of_long_values)

text \<open>
  Claim C6. Take a torus cusp on which the engine returns, and the cusp that differs from it
  in the topology only, which is that of a Klein bottle. On the second cusp the engine
  returns the same singularity index, and in both slots the real part of the length is
  half that of the torus cusp and the imaginary part is the same.
\<close>

theorem Klein_bottle_halves_real_part:
  assumes "topology cusp = torus_cusp"
    and "compute_core_geodesic dcai cusp = Some (Inr (n, length_torus))"
  shows "\<exists>length_Klein.
           compute_core_geodesic dcai (cusp\<lparr>topology := Klein_cusp\<rparr>) = Some (Inr (n, length_Klein))
           \<and> real_part (length_Klein ! ultimate) = real_part (length_torus ! ultimate) / 2
           \<and> imag_part (length_Klein ! ultimate) = imag_part (length_torus ! ultimate)
           \<and> real_part (length_Klein ! penultimate) = real_part (length_torus ! penultimate) / 2
           \<and> imag_part (length_Klein ! penultimate) = imag_part (length_torus ! penultimate)"
proof (cases "is_complete cusp \<or> \<not> dcai (m cusp) (l cusp)")
  case True
  with assms(2) have "n = 0" "length_torus = [Zero, Zero]"
    by (simp_all add: compute_core_geodesic_def)
  moreover from True
  have "compute_core_geodesic dcai (cusp\<lparr>topology := Klein_cusp\<rparr>) = Some (Inr (0, [Zero, Zero]))"
    by (simp add: compute_core_geodesic_def)
  ultimately show ?thesis
    by (simp add: Zero_def ultimate_def penultimate_def)
next
  case False
  with compute_core_geodesic_Inr [OF assms(2)] obtain g d nc z0 z1
    where ea: "euclidean_algorithm (long_of_Real (m cusp)) (long_of_Real (l cusp)) = Inr (g, d, nc)"
      and n: "n = int_of_long g"
      and z0: "snapshot_length cusp n d nc 0 = Some z0"
      and z1: "snapshot_length cusp n d nc 1 = Some z1"
      and len: "length_torus = [z0, z1]"
    by blast
  have not_Klein: "topology cusp \<noteq> Klein_cusp"
    using assms(1) by simp
  have "compute_core_geodesic dcai (cusp\<lparr>topology := Klein_cusp\<rparr>) =
        Some (Inr (n, [\<lparr>real_part = real_part z0 / 2, imag_part = imag_part z0\<rparr>,
                       \<lparr>real_part = real_part z1 / 2, imag_part = imag_part z1\<rparr>]))"
    using False
    by (simp add: compute_core_geodesic_def ea n [symmetric] Let_def
          snapshot_length_Klein [OF z0 not_Klein]
          snapshot_length_Klein [OF z1 not_Klein] del: One_nat_def)
  then show ?thesis
    by (simp add: len ultimate_def penultimate_def)
qed

theorem Klein_bottle_halves_real_part_witness:
  "\<exists>length_Klein.
     compute_core_geodesic exact_integers
       ((filled_cusp 1 2 \<lparr>real_part = 1/2, imag_part = 3/10\<rparr> \<lparr>real_part = 1, imag_part = 1/10\<rparr>)
          \<lparr>topology := Klein_cusp\<rparr>) = Some (Inr (1, length_Klein))
     \<and> real_part (length_Klein ! ultimate) = 1 / 2
     \<and> imag_part (length_Klein ! ultimate) = 1 / 10
     \<and> real_part (length_Klein ! penultimate) = 1 / 2
     \<and> imag_part (length_Klein ! penultimate) = 1 / 10"
proof -
  have "topology (filled_cusp 1 2 \<lparr>real_part = 1/2, imag_part = 3/10\<rparr>
                                  \<lparr>real_part = 1, imag_part = 1/10\<rparr>) = torus_cusp"
    by (simp add: filled_cusp_def)
  from Klein_bottle_halves_real_part [OF this compute_core_geodesic_scenario]
  show ?thesis
    by (simp add: ultimate_def penultimate_def)
qed

text \<open>
  Claim C7. When the cusp is found and the engine returns singularity index 0, the wrapper
  \<^const>\<open>core_geodesic\<close> returns the zero complex value as the core length and, when a
  precision is asked for, the precision 0; when the index is not 0, it returns the length
  of the ultimate snapshot as the core length, and the precision is the value of the
  comparison of the ultimate with the penultimate length.
\<close>

theorem core_geodesic_packages_result:
  assumes "find_cusp manifold cusp_index = Inr cusp"
    and "compute_core_geodesic dcai cusp = Some (Inr (n, length2))"
  shows "core_geodesic dcai cdpa manifold cusp_index want_precision =
           Some (Inr (n,
             (if n = 0 then \<lparr>real_part = 0, imag_part = 0\<rparr> else length2 ! ultimate),
             (if want_precision
              then Some (if n = 0 then 0 else cdpa (length2 ! ultimate) (length2 ! penultimate))
              else None)))"
  using assms by (simp add: core_geodesic_def Zero_def)

theorem core_geodesic_packages_result_witness:
  "core_geodesic exact_integers (\<lambda>z0 z1. 15)
      [(filled_cusp 1 2 \<lparr>real_part = 1/2, imag_part = 3/10\<rparr> \<lparr>real_part = 1, imag_part = 1/10\<rparr>)
         \<lparr>is_complete := True\<rparr>] 0 True
     = Some (Inr (0, \<lparr>real_part = 0, imag_part = 0\<rparr>, Some 0))
   \<and> core_geodesic exact_integers (\<lambda>z0 z1. 15)
      [filled_cusp 1 2 \<lparr>real_part = 1/2, imag_part = 3/10\<rparr> \<lparr>real_part = 1, imag_part = 1/10\<rparr>]
      0 True
     = Some (Inr (1, \<lparr>real_part = 1, imag_part = 1/10\<rparr>, Some 15))"
proof -
  define filled where
    "filled = filled_cusp 1 2 \<lparr>real_part = 1/2, imag_part = 3/10\<rparr> \<lparr>real_part = 1, imag_part = 1/10\<rparr>"
  have found: "find_cusp [filled\<lparr>is_complete := True\<rparr>] 0 = Inr (filled\<lparr>is_complete := True\<rparr>)"
    "find_cusp [filled] 0 = Inr filled"
    by (simp_all add: filled_def filled_cusp_def)
  have zero: "compute_core_geodesic exact_integers (filled\<lparr>is_complete := True\<rparr>)
      = Some (Inr (0, [Zero, Zero]))"
    by (simp add: compute_core_geodesic_def)
  have one: "compute_core_geodesic exact_integers filled
      = Some (Inr (1, [\<lparr>real_part = 1, imag_part = 1/10\<rparr>, \<lparr>real_part = 1, imag_part = 1/10\<rparr>]))"
    unfolding filled_def by (rule compute_core_geodesic_scenario)
  show ?thesis
    using core_geodesic_packages_result [OF found(1) zero, of "\<lambda>z0 z1. 15" True]
      core_geodesic_packages_result [OF found(2) one, of "\<lambda>z0 z1. 15" True]
    unfolding filled_def by (simp add: ultimate_def)
qed

text \<open>
  Claim C8. Whenever \<^const>\<open>compute_core_geodesic\<close> returns a singularity index, and
  whenever \<^const>\<open>core_geodesic\<close> returns one, the index is not negative. The conversion
  to \<^verbatim>\<open>int\<close> can store a negative index, but then the step of the torsion loops is
  negative and the engine does not return (lemmas \<open>snapshot_length_index\<close> and
  \<open>compute_core_geodesic_INT_MIN\<close>).
\<close>

theorem singularity_index_nonnegative:
  "(compute_core_geodesic dcai cusp = Some (Inr (n, length2)) \<longrightarrow> 0 \<le> n)
   \<and> (core_geodesic dcai cdpa manifold cusp_index want_precision
        = Some (Inr (n', core_length, precision)) \<longrightarrow> 0 \<le> n')"
proof -
  have engine: "0 \<le> k" if r: "compute_core_geodesic dcai c = Some (Inr (k, len))" for c k len
    using compute_core_geodesic_Inr [OF r] by (auto dest: snapshot_length_index)
  have wrapper: "0 \<le> n'"
    if "core_geodesic dcai cdpa manifold cusp_index want_precision
          = Some (Inr (n', core_length, precision))"
  proof -
    from that obtain c len where "compute_core_geodesic dcai c = Some (Inr (n', len))"
      by (auto simp: core_geodesic_def split: sum.splits option.splits if_splits)
    then show ?thesis
      by (rule engine)
  qed
  from engine wrapper show ?thesis
    by blast
qed

theorem singularity_index_nonnegative_witness:
  "compute_core_geodesic exact_integers
     (filled_cusp 1 2 \<lparr>real_part = 1/2, imag_part = 3/10\<rparr> \<lparr>real_part = 1, imag_part = 1/10\<rparr>)
   = Some (Inr (1, [\<lparr>real_part = 1, imag_part = 1/10\<rparr>, \<lparr>real_part = 1, imag_part = 1/10\<rparr>]))
   \<and> core_geodesic exact_integers (\<lambda>z0 z1. 15)
     [filled_cusp 1 2 \<lparr>real_part = 1/2, imag_part = 3/10\<rparr> \<lparr>real_part = 1, imag_part = 1/10\<rparr>]
     0 True
   = Some (Inr (1, \<lparr>real_part = 1, imag_part = 1/10\<rparr>, Some 15))
   \<and> (0::int) \<le> 1"
  using singularity_index_nonnegative [of exact_integers
      "filled_cusp 1 2 \<lparr>real_part = 1/2, imag_part = 3/10\<rparr> \<lparr>real_part = 1, imag_part = 1/10\<rparr>"
      1 "[\<lparr>real_part = 1, imag_part = 1/10\<rparr>, \<lparr>real_part = 1, imag_part = 1/10\<rparr>]"
      "\<lambda>z0 z1. 15"
      "[filled_cusp 1 2 \<lparr>real_part = 1/2, imag_part = 3/10\<rparr> \<lparr>real_part = 1, imag_part = 1/10\<rparr>]"
      0 True 1 "\<lparr>real_part = 1, imag_part = 1/10\<rparr>" "Some 15"]
    compute_core_geodesic_scenario core_geodesic_scenario [of "\<lambda>z0 z1. 15"]
  by simp



text \<open>
  Claim C10. The integers handed to the Euclidean algorithm are the filling coefficients
  truncated toward zero: on a filled cusp that passes the integrality predicate, the
  Euclidean algorithm returns the greatest common divisor of the two truncated
  coefficients, every index the engine returns is this value converted to \<^verbatim>\<open>int\<close>, and the
  engine returns when that index is at least 1. A truncated coefficient has the sign of
  the coefficient and a magnitude that is at most the coefficient's and less than one
  below it. In the instance the coefficient \<open>4 - 1/1000000\<close> passes a predicate with
  tolerance \<open>1/100000\<close>, its nearest integer is 4, and the index is 3.
\<close>

theorem coefficients_are_truncated:
  assumes "\<not> is_complete cusp" and "dcai (m cusp) (l cusp)"
    and "long_of_Real (m cusp) \<noteq> 0 \<or> long_of_Real (l cusp) \<noteq> 0"
  shows "(\<exists>d nc.
            euclidean_algorithm (long_of_Real (m cusp)) (long_of_Real (l cusp))
              = Inr (gcd (long_of_Real (m cusp)) (long_of_Real (l cusp)), d, nc)
            \<and> (\<forall>n length2. compute_core_geodesic dcai cusp = Some (Inr (n, length2)) \<longrightarrow>
                  n = int_of_long (gcd (long_of_Real (m cusp)) (long_of_Real (l cusp))))
            \<and> (1 \<le> int_of_long (gcd (long_of_Real (m cusp)) (long_of_Real (l cusp))) \<longrightarrow>
                 (\<exists>length2. compute_core_geodesic dcai cusp
                    = Some (Inr (int_of_long (gcd (long_of_Real (m cusp)) (long_of_Real (l cusp))),
                         length2)))))
         \<and> \<bar>real_of_int (long_of_Real (m cusp))\<bar> \<le> \<bar>m cusp\<bar>
         \<and> \<bar>m cusp\<bar> < \<bar>real_of_int (long_of_Real (m cusp))\<bar> + 1
         \<and> 0 \<le> real_of_int (long_of_Real (m cusp)) * m cusp
         \<and> \<bar>real_of_int (long_of_Real (l cusp))\<bar> \<le> \<bar>l cusp\<bar>
         \<and> \<bar>l cusp\<bar> < \<bar>real_of_int (long_of_Real (l cusp))\<bar> + 1
         \<and> 0 \<le> real_of_int (long_of_Real (l cusp)) * l cusp"
proof -
  define a where "a = long_of_Real (m cusp)"
  define b where "b = long_of_Real (l cusp)"
  obtain d nc where ea: "euclidean_algorithm a b = Inr (gcd a b, d, nc)"
    using euclidean_algorithm_correct [of a b] assms(3) unfolding a_def b_def by blast
  have stored: "n = int_of_long (gcd a b)"
    if r: "compute_core_geodesic dcai cusp = Some (Inr (n, length2))" for n length2
    using compute_core_geodesic_Inr [OF r] assms(1,2) ea unfolding a_def b_def by auto
  have returns: "\<exists>length2. compute_core_geodesic dcai cusp
      = Some (Inr (int_of_long (gcd a b), length2))" if n: "1 \<le> int_of_long (gcd a b)"
  proof -
    have pos: "0 < int_of_long (gcd a b)"
      using n by simp
    obtain z0 where z0: "snapshot_length cusp (int_of_long (gcd a b)) d nc 0 = Some z0"
      using snapshot_length_returns [OF pos] by blast
    obtain z1 where z1: "snapshot_length cusp (int_of_long (gcd a b)) d nc 1 = Some z1"
      using snapshot_length_returns [OF pos] by blast
    have "compute_core_geodesic dcai cusp = Some (Inr (int_of_long (gcd a b), [z0, z1]))"
      using assms(1,2)
      by (simp add: compute_core_geodesic_def a_def [symmetric] b_def [symmetric] ea z0 z1 Let_def
            del: One_nat_def)
    then show ?thesis
      by blast
  qed
  have "\<exists>d nc. euclidean_algorithm a b = Inr (gcd a b, d, nc)
      \<and> (\<forall>n length2. compute_core_geodesic dcai cusp = Some (Inr (n, length2)) \<longrightarrow>
            n = int_of_long (gcd a b))
      \<and> (1 \<le> int_of_long (gcd a b) \<longrightarrow>
           (\<exists>length2. compute_core_geodesic dcai cusp
              = Some (Inr (int_of_long (gcd a b), length2))))"
    using ea stored returns by blast
  then show ?thesis
    unfolding a_def b_def using long_of_Real_truncates [of "m cusp"] long_of_Real_truncates [of "l cusp"]
    by blast
qed

theorem coefficients_are_truncated_witness:
  "near_integers (4 - 1 / 1000000) 0
   \<and> round (4 - 1 / 1000000 :: real) = 4
   \<and> long_of_Real (4 - 1 / 1000000) = 3
   \<and> (\<exists>d nc length2.
        euclidean_algorithm (long_of_Real (4 - 1 / 1000000)) (long_of_Real 0) = Inr (3, d, nc)
        \<and> compute_core_geodesic near_integers (filled_cusp (4 - 1 / 1000000) 0 Zero Zero)
          = Some (Inr (3, length2)))"
proof -
  have r: "round (4 - 1 / 1000000 :: real) = 4"
    by (simp add: round_def)
  have near: "near_integers (4 - 1 / 1000000) 0"
    unfolding near_integers_def r by simp
  have t: "long_of_Real (4 - 1 / 1000000) = 3" "long_of_Real 0 = 0"
    by (simp_all add: long_of_Real_def)
  from coefficients_are_truncated [of "filled_cusp (4 - 1 / 1000000) 0 Zero Zero" near_integers]
  show ?thesis
    using r near t by (auto simp: filled_cusp_def int_of_long_values)
qed

end
